theory Spec2Isabelle
  imports Main "HOL-Library.Sublist" "HOL-Library.AList"
begin

section \<open>Python values, strings and exceptions\<close>

text \<open>
  The program is a Python script. No function of it catches an exception, so a raised
  exception always ends the run; the exceptions that the modelled statements can raise are
  the constructors of \<open>error\<close>. \<open>NotModelled\<close> is not a Python exception: it marks the
  replacement fields of \<open>str.format\<close> (attribute access, indexing, conversions and format
  specifications) that the model of \<open>str.format\<close> below does not evaluate.
\<close>

datatype error =
    IndexError
  | KeyError string
  | ValueError
  | AttributeError
  | TypeError
  | ParseError
  | NotModelled

text \<open>
  Attribute values of an XML element are strings when they come from the parser and
  integers when \<open>DashDownloader.handle_mpd\<close> writes them (\<open>attrib={"d": duration, "i": idx + 1}\<close>,
  \<open>segment.attrib["t"] = next_time\<close>).
\<close>

datatype pyval = PStr string | PInt int

subsection \<open>Decimal output: \<open>str(int)\<close>\<close>

definition digit_char :: "nat \<Rightarrow> char" where
  "digit_char n = char_of (48 + n)"

fun str_nat :: "nat \<Rightarrow> string" where
  "str_nat n = (if n < 10 then [digit_char n] else str_nat (n div 10) @ [digit_char (n mod 10)])"

declare str_nat.simps [simp del]

definition str_int :: "int \<Rightarrow> string" where
  "str_int i = (if i < 0 then CHR ''-'' # str_nat (nat (- i)) else str_nat (nat i))"

definition py_str :: "pyval \<Rightarrow> string" where
  "py_str v = (case v of PStr s \<Rightarrow> s | PInt i \<Rightarrow> str_int i)"

subsection \<open>Decimal input: \<open>int(str)\<close>\<close>

text \<open>
  \<open>int\<close> of a string strips surrounding whitespace, reads an optional sign and then decimal
  digits, in which single underscores may separate digits; anything else raises
  \<open>ValueError\<close>. \<open>int\<close> of an integer is that integer. Strings are ASCII here: the
  whitespace is the six ASCII blanks and the four separators \<open>0x1C\<close> to \<open>0x1F\<close>.
\<close>

definition is_space :: "char \<Rightarrow> bool" where
  "is_space c =
     (c \<in> {CHR '' '', CHR 0x09, CHR 0x0A, CHR 0x0B, CHR 0x0C, CHR 0x0D,
            CHR 0x1C, CHR 0x1D, CHR 0x1E, CHR 0x1F})"

definition strip :: "string \<Rightarrow> string" where
  "strip s = rev (dropWhile is_space (rev (dropWhile is_space s)))"

definition digit_val :: "char \<Rightarrow> nat option" where
  "digit_val c =
     (if (48::nat) \<le> of_char c \<and> of_char c \<le> (57::nat) then Some (of_char c - 48) else None)"

fun digits_val :: "nat \<Rightarrow> string \<Rightarrow> nat option" where
  "digits_val acc [] = Some acc"
| "digits_val acc [c] = map_option (\<lambda>v. acc * 10 + v) (digit_val c)"
| "digits_val acc (c # c' # cs) =
     (if c = CHR ''_'' then
        (case digit_val c' of None \<Rightarrow> None | Some v \<Rightarrow> digits_val (acc * 10 + v) cs)
      else
        (case digit_val c of None \<Rightarrow> None | Some v \<Rightarrow> digits_val (acc * 10 + v) (c' # cs)))"

definition nat_of_str :: "string \<Rightarrow> nat option" where
  "nat_of_str s =
     (case s of [] \<Rightarrow> None
      | c # cs \<Rightarrow> (case digit_val c of None \<Rightarrow> None | Some v \<Rightarrow> digits_val v cs))"

definition int_of_str :: "string \<Rightarrow> int option" where
  "int_of_str s =
     (case strip s of [] \<Rightarrow> None
      | c # cs \<Rightarrow>
          if c = CHR ''-'' then map_option (\<lambda>n. - int n) (nat_of_str cs)
          else if c = CHR ''+'' then map_option int (nat_of_str cs)
          else map_option int (nat_of_str (c # cs)))"

definition py_int :: "pyval \<Rightarrow> error + int" where
  "py_int v =
     (case v of PInt i \<Rightarrow> Inr i
      | PStr s \<Rightarrow> (case int_of_str s of None \<Rightarrow> Inl ValueError | Some i \<Rightarrow> Inr i))"

subsection \<open>\<open>str.rfind\<close>, \<open>str.replace\<close>, \<open>str.startswith\<close>, \<open>str.split\<close>\<close>

fun rfind :: "string \<Rightarrow> char \<Rightarrow> int" where
  "rfind [] c = - 1"
| "rfind (x # xs) c =
     (let r = rfind xs c in if 0 \<le> r then r + 1 else if x = c then 0 else - 1)"

text \<open>
  \<open>s.replace(old, new)\<close> for a non-empty \<open>old\<close> (every call of the program passes a
  non-empty literal): the non-overlapping occurrences are replaced from left to right.
\<close>

function replace :: "string \<Rightarrow> string \<Rightarrow> string \<Rightarrow> string" where
  "replace old new [] = []"
| "replace old new (c # cs) =
     (if old \<noteq> [] \<and> prefix old (c # cs)
      then new @ replace old new (drop (length old) (c # cs))
      else c # replace old new cs)"
  by pat_completeness auto
termination
  by (relation "measure (\<lambda>(old, new, s). length s)") (auto simp: neq_Nil_conv)

definition startswith :: "string \<Rightarrow> string \<Rightarrow> bool" where
  "startswith s p = prefix p s"

text \<open>\<open>dest.split("?")[0]\<close>: the part before the first question mark.\<close>

definition split_first :: "string \<Rightarrow> char \<Rightarrow> string" where
  "split_first s c = takeWhile (\<lambda>x. x \<noteq> c) s"

subsection \<open>\<open>str.format(**args)\<close>\<close>

text \<open>
  The format string is read from left to right. \<open>{{\<close> and \<open>}}\<close> stand for one brace; a
  single closing brace, or an opening brace that is never closed, raises \<open>ValueError\<close>. A
  replacement field \<open>{name}\<close> is looked up among the keyword arguments and replaced by
  \<open>str\<close> of the value; a missing name raises \<open>KeyError\<close>, and an empty or numeric name
  addresses a positional argument, of which there is none (\<open>IndexError\<close>; an index
  beyond the largest \<open>Py_ssize_t\<close>, \<open>2^63 - 1\<close>, is a \<open>ValueError\<close>). A field that
  contains one of \<open>.\<close>, \<open>[\<close>, \<open>!\<close>, \<open>:\<close> and \<open>{\<close> is more than a name; the model does
  not evaluate it and answers \<open>NotModelled\<close>.
\<close>

definition field_special :: "char \<Rightarrow> bool" where
  "field_special c = (c \<in> {CHR ''.'', CHR ''['', CHR ''!'', CHR '':'', CHR ''{''})"

definition format_field :: "string \<Rightarrow> (string \<times> pyval) list \<Rightarrow> error + string" where
  "format_field field args =
     (if list_ex field_special field then Inl NotModelled
      else if field = [] then Inl IndexError
      else if list_all (\<lambda>c. digit_val c \<noteq> None) field then
        (case nat_of_str field of
           None \<Rightarrow> Inl IndexError
         | Some index \<Rightarrow> if 9223372036854775807 < index then Inl ValueError else Inl IndexError)
      else (case map_of args field of
              None \<Rightarrow> Inl (KeyError field)
            | Some v \<Rightarrow> Inr (py_str v)))"

function format :: "string \<Rightarrow> (string \<times> pyval) list \<Rightarrow> error + string" where
  "format [] args = Inr []"
| "format (c # cs) args =
     (if c = CHR ''{'' then
        (case cs of
           [] \<Rightarrow> Inl ValueError
         | c' # cs' \<Rightarrow>
             if c' = CHR ''{'' then map_sum id ((#) CHR ''{'') (format cs' args)
             else if dropWhile (\<lambda>x. x \<noteq> CHR ''}'') cs = [] then Inl ValueError
             else (case format_field (takeWhile (\<lambda>x. x \<noteq> CHR ''}'') cs) args of
                     Inl e \<Rightarrow> Inl e
                   | Inr v \<Rightarrow>
                       map_sum id ((@) v)
                         (format (tl (dropWhile (\<lambda>x. x \<noteq> CHR ''}'') cs)) args)))
      else if c = CHR ''}'' then
        (case cs of
           [] \<Rightarrow> Inl ValueError
         | c' # cs' \<Rightarrow>
             if c' = CHR ''}'' then map_sum id ((#) CHR ''}'') (format cs' args)
             else Inl ValueError)
      else map_sum id ((#) c) (format cs args))"
  by pat_completeness auto
termination
proof (relation "measure (\<lambda>(s, args). length s)")
  fix c :: char and cs :: string and args :: "(string \<times> pyval) list"
  have "length (dropWhile (\<lambda>x. x \<noteq> CHR ''}'') cs) \<le> length cs"
    by (rule length_dropWhile_le)
  then show "((tl (dropWhile (\<lambda>x. x \<noteq> CHR ''}'') cs), args), c # cs, args)
        \<in> measure (\<lambda>(s, args). length s)"
    by simp
qed auto

section \<open>The manifest tree\<close>

text \<open>
  An \<open>xml.etree.ElementTree.Element\<close>: tag, attribute dictionary (in insertion order),
  text and children. Tags carry their namespace in Clark notation, so the path
  \<open>"mpd:Period"\<close> resolved with \<open>ns\<close> selects the children tagged \<open>ns_mpd ''Period''\<close>.
\<close>

datatype element =
  Element (tag: string) (attrib: "(string \<times> pyval) list") (etext: "string option")
    (children: "element list")

definition ns_mpd :: "string \<Rightarrow> string" where
  "ns_mpd name = ''{urn:mpeg:dash:schema:mpd:2011}'' @ name"

definition findall :: "element \<Rightarrow> string \<Rightarrow> element list" where
  "findall e t = filter (\<lambda>c. tag c = t) (children e)"

definition find_first :: "element \<Rightarrow> string \<Rightarrow> element option" where
  "find_first e t = (case findall e t of [] \<Rightarrow> None | c # _ \<Rightarrow> Some c)"

definition attrib_get :: "element \<Rightarrow> string \<Rightarrow> pyval \<Rightarrow> pyval" where
  "attrib_get e k d = (case map_of (attrib e) k of None \<Rightarrow> d | Some v \<Rightarrow> v)"

definition attrib_set :: "element \<Rightarrow> string \<Rightarrow> pyval \<Rightarrow> element" where
  "attrib_set e k v = Element (tag e) (AList.update k v (attrib e)) (etext e) (children e)"

definition set_children :: "element \<Rightarrow> element list \<Rightarrow> element" where
  "set_children e cs = Element (tag e) (attrib e) (etext e) cs"

text \<open>
  The truth value of an element (\<open>if baseUrlNode:\<close>) is that of its list of children: an
  element without children is false. The truth value of an attribute value is that of the
  string or integer.
\<close>

definition element_bool :: "element \<Rightarrow> bool" where
  "element_bool e = (children e \<noteq> [])"

definition py_bool :: "pyval \<Rightarrow> bool" where
  "py_bool v = (case v of PStr s \<Rightarrow> s \<noteq> [] | PInt i \<Rightarrow> i \<noteq> 0)"

text \<open>\<open>xs[i]\<close>: a negative index counts from the end, an index out of range raises.\<close>

definition list_index :: "'a list \<Rightarrow> int \<Rightarrow> nat option" where
  "list_index xs i =
     (let n = int (length xs); j = (if i < 0 then n + i else i)
      in if 0 \<le> j \<and> j < n then Some (nat j) else None)"

definition getitem :: "'a list \<Rightarrow> int \<Rightarrow> error + 'a" where
  "getitem xs i = (case list_index xs i of None \<Rightarrow> Inl IndexError | Some j \<Rightarrow> Inr (xs ! j))"

text \<open>\<open>list.insert(i, x)\<close> for \<open>i \<ge> 0\<close>: beyond the end it appends.\<close>

definition list_insert :: "nat \<Rightarrow> 'a \<Rightarrow> 'a list \<Rightarrow> 'a list" where
  "list_insert i x xs = take i xs @ x # drop i xs"

section \<open>\<open>baseUrl\<close> and \<open>RepAddr\<close>\<close>

definition baseUrl :: "string \<Rightarrow> string" where
  "baseUrl url =
     (let idx = rfind url CHR ''/'' in if 0 \<le> idx then take (nat (idx + 1)) url else url)"

text \<open>
  \<open>RepAddr\<close> defines \<open>__init__\<close> and \<open>__str__\<close> only. It inherits \<open>__eq__\<close> and
  \<open>__hash__\<close> from \<open>object\<close>, so two addresses are equal, and are the same dictionary key,
  only when they are the same object: \<open>oid\<close> is the identity of the object, given by the
  allocation counter of the run.
\<close>

record RepAddr =
  oid :: nat
  period_idx :: int
  adaptation_set_idx :: int
  representation_idx :: int

section \<open>\<open>MpdLocator\<close>\<close>

definition adaptation_set :: "element \<Rightarrow> RepAddr \<Rightarrow> error + element" where
  "adaptation_set m a =
     (case getitem (findall m (ns_mpd ''Period'')) (period_idx a) of
        Inl e \<Rightarrow> Inl e
      | Inr period \<Rightarrow> getitem (findall period (ns_mpd ''AdaptationSet'')) (adaptation_set_idx a))"

definition representation :: "element \<Rightarrow> RepAddr \<Rightarrow> error + element" where
  "representation m a =
     (case adaptation_set m a of
        Inl e \<Rightarrow> Inl e
      | Inr aset \<Rightarrow> getitem (findall aset (ns_mpd ''Representation'')) (representation_idx a))"

definition base_url :: "element \<Rightarrow> RepAddr \<Rightarrow> error + element option" where
  "base_url m a =
     (case representation m a of
        Inl e \<Rightarrow> Inl e
      | Inr rep \<Rightarrow> Inr (find_first rep (ns_mpd ''BaseURL'')))"

definition segment_template :: "element \<Rightarrow> RepAddr \<Rightarrow> error + element option" where
  "segment_template m a =
     (case representation m a of
        Inl e \<Rightarrow> Inl e
      | Inr rep \<Rightarrow>
          (case find_first rep (ns_mpd ''SegmentTemplate'') of
             Some rep_st \<Rightarrow> Inr (Some rep_st)
           | None \<Rightarrow>
               (case adaptation_set m a of
                  Inl e \<Rightarrow> Inl e
                | Inr aset \<Rightarrow> Inr (find_first aset (ns_mpd ''SegmentTemplate'')))))"

definition segment_timeline :: "element \<Rightarrow> RepAddr \<Rightarrow> error + element option" where
  "segment_timeline m a =
     (case segment_template m a of
        Inl e \<Rightarrow> Inl e
      | Inr None \<Rightarrow> Inl AttributeError
      | Inr (Some st) \<Rightarrow> Inr (find_first st (ns_mpd ''SegmentTimeline'')))"

text \<open>
  \<open>DashDownloader.handle_mpd\<close> rewrites the \<open>SegmentTimeline\<close> node that
  \<open>segment_timeline\<close> returns, in place, inside the tree it was given. With trees as values
  the rewritten node is stored back at the position \<open>segment_timeline\<close> read it from:
  below the representation when the representation owns a \<open>SegmentTemplate\<close>, below the
  adaptation set otherwise.
\<close>

fun map_nth_where :: "('a \<Rightarrow> bool) \<Rightarrow> nat \<Rightarrow> ('a \<Rightarrow> 'a) \<Rightarrow> 'a list \<Rightarrow> 'a list" where
  "map_nth_where P n f [] = []"
| "map_nth_where P n f (x # xs) =
     (if P x then (case n of 0 \<Rightarrow> f x # xs | Suc k \<Rightarrow> x # map_nth_where P k f xs)
      else x # map_nth_where P n f xs)"

definition update_child :: "string \<Rightarrow> nat \<Rightarrow> (element \<Rightarrow> element) \<Rightarrow> element \<Rightarrow> element" where
  "update_child t n f e = set_children e (map_nth_where (\<lambda>c. tag c = t) n f (children e))"

definition store_in_template :: "element \<Rightarrow> element \<Rightarrow> element" where
  "store_in_template timeline owner =
     update_child (ns_mpd ''SegmentTemplate'') 0
       (update_child (ns_mpd ''SegmentTimeline'') 0 (\<lambda>_. timeline)) owner"

definition store_timeline :: "element \<Rightarrow> RepAddr \<Rightarrow> element \<Rightarrow> element" where
  "store_timeline m a timeline =
     (case list_index (findall m (ns_mpd ''Period'')) (period_idx a) of
        None \<Rightarrow> m
      | Some pidx \<Rightarrow>
          update_child (ns_mpd ''Period'') pidx
            (\<lambda>period.
               case list_index (findall period (ns_mpd ''AdaptationSet'')) (adaptation_set_idx a) of
                 None \<Rightarrow> period
               | Some ai \<Rightarrow>
                   update_child (ns_mpd ''AdaptationSet'') ai
                     (\<lambda>aset.
                        case list_index (findall aset (ns_mpd ''Representation''))
                               (representation_idx a) of
                          None \<Rightarrow> aset
                        | Some ri \<Rightarrow>
                            if find_first (findall aset (ns_mpd ''Representation'') ! ri)
                                 (ns_mpd ''SegmentTemplate'') \<noteq> None
                            then update_child (ns_mpd ''Representation'') ri
                                   (store_in_template timeline) aset
                            else store_in_template timeline aset)
                     period)
            m)"

section \<open>The collaborators: HTTP, files, log, clock\<close>

text \<open>
  \<open>requests.get\<close>, the file system, the logger and \<open>time.sleep\<close> are the program's
  collaborators. The \<open>world\<close> records what the run did to them, in order: the requests it
  issued (URL, and the two further arguments it passed), the files it wrote, the log calls
  it made and the delays it slept. The server is a function from the number of requests
  issued before and the URL to the response. A response body is either a well-formed XML
  document, given by the tree \<open>xml.etree.ElementTree.fromstring\<close> returns for it, or other
  bytes, on which \<open>fromstring\<close> raises \<open>ParseError\<close>; a manifest written to a file is
  given by its tree as well.
\<close>

datatype body = Doc element | Bytes string

record response =
  status_code :: int
  content :: body

datatype pyobj = Dict "(string \<times> string) list" | Node element

datatype level = VERBOSE | INFO | WARNING | ERROR

datatype event =
    Running string string
  | CannotGetMpd int int
  | MpdPeriods "element list"
  | FoundPeriods nat
  | FoundRepresentation pyval
  | VodStopping
  | AlreadyStarted RepAddr
  | Starting RepAddr
  | WritingMpd
  | SingleRequesting string string
  | Requesting string string
  | CannotDownload string int
  | AppendingElem

fun level_of :: "event \<Rightarrow> level" where
  "level_of (Running _ _) = INFO"
| "level_of (CannotGetMpd _ _) = WARNING"
| "level_of (MpdPeriods _) = INFO"
| "level_of (FoundPeriods _) = VERBOSE"
| "level_of (FoundRepresentation _) = VERBOSE"
| "level_of VodStopping = INFO"
| "level_of (AlreadyStarted _) = VERBOSE"
| "level_of (Starting _) = INFO"
| "level_of WritingMpd = INFO"
| "level_of (SingleRequesting _ _) = INFO"
| "level_of (Requesting _ _) = INFO"
| "level_of (CannotDownload _ _) = ERROR"
| "level_of AppendingElem = VERBOSE"

record world =
  requests :: "(string \<times> pyobj \<times> pyobj) list"
  files :: "(string \<times> body) list"
  logged :: "event list"
  sleeps :: "int list"

type_synonym server = "nat \<Rightarrow> string \<Rightarrow> response"

definition requests_get :: "server \<Rightarrow> string \<Rightarrow> pyobj \<Rightarrow> pyobj \<Rightarrow> world \<Rightarrow> response \<times> world" where
  "requests_get srv url hs cs w =
     (srv (length (requests w)) url, w\<lparr>requests := requests w @ [(url, hs, cs)]\<rparr>)"

definition emit :: "event \<Rightarrow> world \<Rightarrow> world" where
  "emit ev w = w\<lparr>logged := logged w @ [ev]\<rparr>"

definition os_path_join :: "string \<Rightarrow> string \<Rightarrow> string" where
  "os_path_join a b =
     (if prefix ''/'' b then b
      else if a = [] \<or> suffix ''/'' a then a @ b
      else a @ ''/'' @ b)"

definition write_file :: "string \<Rightarrow> body \<Rightarrow> world \<Rightarrow> world" where
  "write_file dest c w = w\<lparr>files := files w @ [(dest, c)]\<rparr>"

text \<open>
  An uncaught exception ends the run, and what remains of the run is what it did to its
  collaborators: \<open>Raise\<close> carries the exception and the world at that point. \<open>Unfinished\<close>
  is the run that has not returned within the bound put on the nesting of
  \<open>refresh_mpd\<close>.
\<close>

datatype 'a outcome = Ok 'a world | Raise error world | Unfinished world

definition lift :: "error + 'a \<Rightarrow> world \<Rightarrow> 'a outcome" where
  "lift r w = (case r of Inl e \<Rightarrow> Raise e w | Inr x \<Rightarrow> Ok x w)"

definition then_do ::
  "(world \<Rightarrow> 'a outcome) \<Rightarrow> ('a \<Rightarrow> world \<Rightarrow> 'b outcome) \<Rightarrow> world \<Rightarrow> 'b outcome" where
  "then_do m f w =
     (case m w of Ok x w' \<Rightarrow> f x w' | Raise e w' \<Rightarrow> Raise e w' | Unfinished w' \<Rightarrow> Unfinished w')"

fun world_of :: "'a outcome \<Rightarrow> world" where
  "world_of (Ok x w) = w"
| "world_of (Raise e w) = w"
| "world_of (Unfinished w) = w"

fun returned :: "'a outcome \<Rightarrow> 'a option" where
  "returned (Ok x w) = Some x"
| "returned (Raise e w) = None"
| "returned (Unfinished w) = None"

section \<open>\<open>DashProxy\<close> and \<open>DashDownloader\<close>: the objects\<close>

text \<open>
  The fields of the two classes. \<open>mpd_url\<close> is the field \<open>self.mpd\<close> of \<open>DashProxy\<close> (the
  manifest URL). The dictionary \<open>downloaders\<close> is kept in insertion order. \<open>allocated\<close> is
  not a field of the class: it counts the \<open>RepAddr\<close> objects constructed so far and gives
  the next one its identity. \<open>DashDownloader\<close> reads of its \<open>proxy\<close> the output directory
  only, and its locator \<open>self.mpd\<close> wraps the tree handed to \<open>handle_mpd\<close>; both are passed
  to the functions below instead of being stored.
\<close>

record DashDownloader =
  rep_addr :: RepAddr
  mpd_base_url :: string
  initialization_downloaded :: bool

record DashProxy =
  mpd_url :: string
  output_dir :: string
  download :: bool
  save_mpds :: bool
  headers :: "(string \<times> string) list"
  cookies :: "(string \<times> string) list"
  i_refresh :: int
  downloaders :: "(RepAddr \<times> DashDownloader) list"
  allocated :: nat

definition retry_interval :: int where
  "retry_interval = 10"

section \<open>\<open>DashProxy.get_base_url\<close>\<close>

definition get_base_url :: "DashProxy \<Rightarrow> element \<Rightarrow> error + string" where
  "get_base_url p mpd =
     (case (case find_first mpd (ns_mpd ''Location'') of
              None \<Rightarrow> Inr (baseUrl (mpd_url p))
            | Some location \<Rightarrow>
                (case etext location of
                   None \<Rightarrow> Inl AttributeError
                 | Some t \<Rightarrow> Inr (baseUrl t))) of
        Inl e \<Rightarrow> Inl e
      | Inr base \<Rightarrow>
          (case find_first mpd (ns_mpd ''BaseUrl'') of
             None \<Rightarrow> Inr base
           | Some baseUrlNode \<Rightarrow>
               if element_bool baseUrlNode then
                 (case etext baseUrlNode of
                    None \<Rightarrow> Inl AttributeError
                  | Some t \<Rightarrow>
                      if startswith t ''http://'' \<or> startswith t ''https://''
                      then Inr (baseUrl t)
                      else Inr (base @ t))
               else Inr base))"

section \<open>\<open>DashDownloader\<close>: rendering and downloading\<close>

text \<open>
  \<open>render_template\<close>. The template is an attribute value; an integer has no \<open>replace\<close>.
\<close>

definition render_template :: "pyval \<Rightarrow> element option \<Rightarrow> element option \<Rightarrow> error + string" where
  "render_template template rep_arg seg_arg =
     (case template of
        PInt _ \<Rightarrow> Inl AttributeError
      | PStr t0 \<Rightarrow>
          (let t1 = replace ''$RepresentationID$'' ''{representation_id}'' t0;
               t2 = replace ''$Time$'' ''{time}'' t1;
               t3 = replace ''$Number%05d$'' ''{number}'' t2;
               args =
                 (case rep_arg of
                    None \<Rightarrow> []
                  | Some r \<Rightarrow> [(''representation_id'', attrib_get r ''id'' (PStr []))]) @
                 (case seg_arg of
                    None \<Rightarrow> []
                  | Some sg \<Rightarrow>
                      [(''time'', attrib_get sg ''t'' (PStr [])),
                       (''number'', attrib_get sg ''i'' (PStr []))])
           in format t3 args))"

definition full_url :: "DashDownloader \<Rightarrow> string \<Rightarrow> string" where
  "full_url d dest = mpd_base_url d @ dest"

definition write_dest :: "DashProxy \<Rightarrow> string \<Rightarrow> body \<Rightarrow> world \<Rightarrow> world" where
  "write_dest p dest c w = write_file (os_path_join (output_dir p) (split_first dest CHR ''?'')) c w"

definition success :: "response \<Rightarrow> bool" where
  "success r = (200 \<le> status_code r \<and> status_code r < 300)"

text \<open>
  \<open>download_template(self, template, headers, cookies, representation=None, segment=None)\<close>.
\<close>

definition download_template ::
  "server \<Rightarrow> DashProxy \<Rightarrow> DashDownloader \<Rightarrow> pyval \<Rightarrow> pyobj \<Rightarrow> pyobj \<Rightarrow>
   element option \<Rightarrow> element option \<Rightarrow> world \<Rightarrow> unit outcome" where
  "download_template srv p d template hs cs rep_arg seg_arg w =
     (case render_template template rep_arg seg_arg of
        Inl e \<Rightarrow> Raise e w
      | Inr dest \<Rightarrow>
          (let dest_url = full_url d dest;
               (r, w') = requests_get srv dest_url hs cs (emit (Requesting dest dest_url) w)
           in if success r then Ok () (write_dest p dest (content r) w')
              else Ok () (emit (CannotDownload dest_url (status_code r)) w')))"

text \<open>
  \<open>download_single\<close>: the \<open>BaseURL\<close> node of the representation may be missing
  (\<open>None.text\<close>) or empty (\<open>self.mpd_base_url + None\<close>).
\<close>

definition download_single ::
  "server \<Rightarrow> DashProxy \<Rightarrow> DashDownloader \<Rightarrow> element \<Rightarrow> pyobj \<Rightarrow> pyobj \<Rightarrow> world \<Rightarrow> unit outcome" where
  "download_single srv p d mpd hs cs w =
     (case base_url mpd (rep_addr d) of
        Inl e \<Rightarrow> Raise e w
      | Inr None \<Rightarrow> Raise AttributeError w
      | Inr (Some node) \<Rightarrow>
          (case etext node of
             None \<Rightarrow> Raise TypeError w
           | Some dest \<Rightarrow>
               (let dest_url = full_url d dest;
                    (r, w') = requests_get srv dest_url hs cs (emit (SingleRequesting dest dest_url) w)
                in if success r then Ok () (write_dest p dest (content r) w')
                   else Ok () (emit (CannotDownload dest_url (status_code r)) w'))))"

section \<open>\<open>DashDownloader.handle_mpd\<close>\<close>

text \<open>
  Lines 280 to 294: the \<open>S\<close> children of the timeline are copied and removed, and for each
  copy \<open>repeat + 1\<close> new elements, carrying the attributes \<open>d\<close> and \<open>i\<close> only, are inserted
  at the positions \<open>idx\<close>, \<open>idx + 1\<close>, ... of the list of children.
\<close>

definition duration_of :: "element \<Rightarrow> error + int" where
  "duration_of segment = py_int (attrib_get segment ''d'' (PStr ''0''))"

definition repeat_of :: "element \<Rightarrow> error + int" where
  "repeat_of segment = py_int (attrib_get segment ''r'' (PStr ''0''))"

definition current_time_of :: "element \<Rightarrow> error + int" where
  "current_time_of segment = py_int (attrib_get segment ''t'' (PStr ''-1''))"

definition new_elem :: "int \<Rightarrow> nat \<Rightarrow> element" where
  "new_elem duration idx =
     Element (ns_mpd ''S'') [(''d'', PInt duration), (''i'', PInt (int idx + 1))] None []"

fun insert_elems :: "nat \<Rightarrow> int \<Rightarrow> nat \<Rightarrow> element list \<Rightarrow> element list" where
  "insert_elems 0 duration idx kids = kids"
| "insert_elems (Suc n) duration idx kids =
     insert_elems n duration (idx + 1) (list_insert idx (new_elem duration idx) kids)"

fun expand_loop :: "element list \<Rightarrow> nat \<Rightarrow> element list \<Rightarrow> world \<Rightarrow> (element list) outcome" where
  "expand_loop [] idx kids w = Ok kids w"
| "expand_loop (segment # segments) idx kids w =
     (case duration_of segment of
        Inl e \<Rightarrow> Raise e w
      | Inr duration \<Rightarrow>
          (case repeat_of segment of
             Inl e \<Rightarrow> Raise e w
           | Inr repeat \<Rightarrow>
               expand_loop segments (idx + nat (repeat + 1))
                 (insert_elems (nat (repeat + 1)) duration idx kids)
                 (w\<lparr>logged := logged w @ replicate (nat (repeat + 1)) AppendingElem\<rparr>)))"

definition expand_timeline :: "element \<Rightarrow> world \<Rightarrow> element outcome" where
  "expand_timeline timeline =
     then_do
       (expand_loop (findall timeline (ns_mpd ''S'')) 0
          (filter (\<lambda>c. tag c \<noteq> ns_mpd ''S'') (children timeline)))
       (\<lambda>kids. Ok (set_children timeline kids))"

text \<open>
  Lines 297 to 305: every \<open>S\<close> element of the rewritten timeline gets its \<open>t\<close>, and
  \<open>self.download_template(media_template, rep, segment)\<close> is called, which binds \<open>rep\<close> to
  the parameter \<open>headers\<close> and \<open>segment\<close> to the parameter \<open>cookies\<close>, and leaves
  \<open>representation\<close> and \<open>segment\<close> at their default \<open>None\<close>. The function returns the
  elements as the loop leaves them.
\<close>

fun media_loop ::
  "server \<Rightarrow> DashProxy \<Rightarrow> DashDownloader \<Rightarrow> pyval \<Rightarrow> element \<Rightarrow> element list \<Rightarrow> int \<Rightarrow>
   world \<Rightarrow> (element list) outcome" where
  "media_loop srv p d media_template rep [] next_time w = Ok [] w"
| "media_loop srv p d media_template rep (segment # segments) next_time w =
     (case current_time_of segment of
        Inl e \<Rightarrow> Raise e w
      | Inr current_time \<Rightarrow>
          (let segment' =
                 (if current_time = - 1 then attrib_set segment ''t'' (PInt next_time)
                  else segment);
               next_time' = (if current_time = - 1 then next_time else current_time)
           in case duration_of segment' of
                Inl e \<Rightarrow> Raise e w
              | Inr duration \<Rightarrow>
                  (case download_template srv p d media_template (Node rep) (Node segment')
                          None None w of
                     Raise e w' \<Rightarrow> Raise e w'
                   | Unfinished w' \<Rightarrow> Unfinished w'
                   | Ok _ w' \<Rightarrow>
                       (case media_loop srv p d media_template rep segments
                               (next_time' + duration) w' of
                          Raise e w'' \<Rightarrow> Raise e w''
                        | Unfinished w'' \<Rightarrow> Unfinished w''
                        | Ok segments' w'' \<Rightarrow> Ok (segment' # segments') w''))))"

fun replace_tagged :: "string \<Rightarrow> element list \<Rightarrow> element list \<Rightarrow> element list" where
  "replace_tagged t news [] = []"
| "replace_tagged t news (c # cs) =
     (if tag c = t then
        (case news of
           [] \<Rightarrow> c # replace_tagged t [] cs
         | n # ns \<Rightarrow> n # replace_tagged t ns cs)
      else c # replace_tagged t news cs)"

definition download_initialization ::
  "server \<Rightarrow> DashProxy \<Rightarrow> DashDownloader \<Rightarrow> element \<Rightarrow> element \<Rightarrow> pyobj \<Rightarrow> pyobj \<Rightarrow> world \<Rightarrow>
   DashDownloader outcome" where
  "download_initialization srv p d st rep hs cs =
     (let initialization_template = attrib_get st ''initialization'' (PStr []) in
      if py_bool initialization_template \<and> \<not> initialization_downloaded d
      then then_do
             (download_template srv p (d\<lparr>initialization_downloaded := True\<rparr>)
                initialization_template hs cs (Some rep) None)
             (\<lambda>_. Ok (d\<lparr>initialization_downloaded := True\<rparr>))
      else Ok d)"

text \<open>
  Lines 280 to 305 together: the timeline node as the two loops leave it in the tree.
\<close>

definition expand_and_download ::
  "server \<Rightarrow> DashProxy \<Rightarrow> DashDownloader \<Rightarrow> pyval \<Rightarrow> element \<Rightarrow> element \<Rightarrow> world \<Rightarrow>
   element outcome" where
  "expand_and_download srv p d media_template rep timeline =
     then_do (expand_timeline timeline) (\<lambda>expanded.
     then_do (media_loop srv p d media_template rep (findall expanded (ns_mpd ''S'')) 0)
       (\<lambda>segments.
     Ok (set_children expanded (replace_tagged (ns_mpd ''S'') segments (children expanded)))))"

definition DashDownloader_handle_mpd ::
  "server \<Rightarrow> DashProxy \<Rightarrow> DashDownloader \<Rightarrow> element \<Rightarrow> string \<Rightarrow> pyobj \<Rightarrow> pyobj \<Rightarrow> world \<Rightarrow>
   (DashDownloader \<times> element) outcome" where
  "DashDownloader_handle_mpd srv p d0 mpd base hs cs =
     (let d = d0\<lparr>mpd_base_url := base\<rparr> in
      then_do (lift (representation mpd (rep_addr d))) (\<lambda>rep.
      then_do (lift (segment_template mpd (rep_addr d))) (\<lambda>st_opt.
        case st_opt of
          None \<Rightarrow> then_do (download_single srv p d mpd hs cs) (\<lambda>_. Ok (d, mpd))
        | Some st \<Rightarrow>
            then_do (lift (segment_timeline mpd (rep_addr d))) (\<lambda>timeline_opt.
            then_do (download_initialization srv p d st rep hs cs) (\<lambda>d1.
            case timeline_opt of
              None \<Rightarrow> Raise AttributeError
            | Some timeline \<Rightarrow>
                then_do
                  (expand_and_download srv p d1 (attrib_get st ''media'' (PStr [])) rep timeline)
                  (\<lambda>timeline'. Ok (d1, store_timeline mpd (rep_addr d1) timeline')))))))"

section \<open>\<open>DashProxy\<close>: the manifest cycle\<close>

definition write_output_mpd :: "DashProxy \<Rightarrow> element \<Rightarrow> world \<Rightarrow> world" where
  "write_output_mpd p mpd w =
     (let w1 = write_file (os_path_join (output_dir p) ''manifest.mpd'') (Doc mpd)
                 (emit WritingMpd w)
      in if save_mpds p
         then write_file
                (os_path_join (output_dir p) (''manifest.'' @ str_int (i_refresh p) @ ''.mpd''))
                (Doc mpd) w1
         else w1)"

definition new_downloader :: "RepAddr \<Rightarrow> DashDownloader" where
  "new_downloader a = \<lparr>rep_addr = a, mpd_base_url = [], initialization_downloaded = False\<rparr>"

text \<open>
  \<open>ensure_downloader\<close>. The downloader is stored in the dictionary and then driven; what
  \<open>handle_mpd\<close> changes in it is changed in the dictionary, since it is the same object.
  The arguments of the call, \<open>self.get_base_url(mpd)\<close> among them, are evaluated before
  it.
\<close>

definition ensure_downloader ::
  "server \<Rightarrow> element \<Rightarrow> RepAddr \<Rightarrow> DashProxy \<Rightarrow> world \<Rightarrow> (element \<times> DashProxy) outcome" where
  "ensure_downloader srv mpd a p =
     (if a \<in> set (map fst (downloaders p))
      then (\<lambda>w. Ok (mpd, p) (emit (AlreadyStarted a) w))
      else (\<lambda>w.
        let p1 = p\<lparr>downloaders := AList.update a (new_downloader a) (downloaders p)\<rparr> in
        then_do (lift (get_base_url p1 mpd)) (\<lambda>base.
        then_do
          (DashDownloader_handle_mpd srv p1 (new_downloader a) mpd base
             (Dict (headers p1)) (Dict (cookies p1)))
          (\<lambda>(d, mpd'). Ok (mpd', p1\<lparr>downloaders := AList.update a d (downloaders p1)\<rparr>)))
          (emit (Starting a) w)))"

text \<open>
  The two nested \<open>for\<close> loops of \<open>DashProxy.handle_mpd\<close> enumerate the adaptation sets of
  the period and the representations of each, with their positions. The downloaders rewrite
  \<open>SegmentTimeline\<close> nodes only, so the positions and the \<open>id\<close> attributes the loops read
  are those of the tree before the loops.
\<close>

definition representations_of :: "element \<Rightarrow> (nat \<times> nat \<times> element) list" where
  "representations_of period =
     concat (map (\<lambda>(as_idx, aset).
                    map (\<lambda>(rep_idx, rep). (as_idx, rep_idx, rep))
                      (enumerate 0 (findall aset (ns_mpd ''Representation''))))
               (enumerate 0 (findall period (ns_mpd ''AdaptationSet''))))"

fun ensure_loop ::
  "server \<Rightarrow> (nat \<times> nat \<times> element) list \<Rightarrow> element \<Rightarrow> DashProxy \<Rightarrow> world \<Rightarrow>
   (element \<times> DashProxy) outcome" where
  "ensure_loop srv [] mpd p w = Ok (mpd, p) w"
| "ensure_loop srv ((as_idx, rep_idx, rep) # rest) mpd p w =
     (case ensure_downloader srv mpd
             \<lparr>oid = allocated p, period_idx = 0, adaptation_set_idx = int as_idx,
              representation_idx = int rep_idx\<rparr>
             (p\<lparr>allocated := Suc (allocated p)\<rparr>)
             (emit (FoundRepresentation (attrib_get rep ''id'' (PStr ''UKN''))) w) of
        Raise e w' \<Rightarrow> Raise e w'
      | Unfinished w' \<Rightarrow> Unfinished w'
      | Ok (mpd', p') w' \<Rightarrow> ensure_loop srv rest mpd' p' w')"

text \<open>
  \<open>refresh_mpd\<close> calls itself after a failed fetch and calls \<open>handle_mpd\<close>, which calls
  \<open>refresh_mpd\<close> again for a live manifest: a run may never return. The first argument
  bounds the nesting of these calls; a run that needs more is \<open>Unfinished\<close>.
\<close>

fun refresh_mpd :: "nat \<Rightarrow> server \<Rightarrow> int \<Rightarrow> DashProxy \<Rightarrow> world \<Rightarrow> DashProxy outcome"
  and DashProxy_handle_mpd ::
    "nat \<Rightarrow> server \<Rightarrow> element \<Rightarrow> DashProxy \<Rightarrow> world \<Rightarrow> DashProxy outcome" where
  "refresh_mpd 0 srv after p w = Unfinished w"
| "refresh_mpd (Suc n) srv after p w =
     (let p1 = p\<lparr>i_refresh := i_refresh p + 1\<rparr>;
          (r, w1) = requests_get srv (mpd_url p1) (Dict (headers p1)) (Dict (cookies p1))
                      (if 0 < after then w\<lparr>sleeps := sleeps w @ [after]\<rparr> else w)
      in case (if status_code r < 200 \<or> 300 \<le> status_code r
               then refresh_mpd n srv retry_interval p1
                      (emit (CannotGetMpd (status_code r) retry_interval) w1)
               else Ok p1 w1) of
           Raise e w2 \<Rightarrow> Raise e w2
         | Unfinished w2 \<Rightarrow> Unfinished w2
         | Ok p2 w2 \<Rightarrow>
             (case content r of
                Bytes _ \<Rightarrow> Raise ParseError w2
              | Doc mpd \<Rightarrow> DashProxy_handle_mpd n srv mpd p2 w2))"
| "DashProxy_handle_mpd 0 srv mpd p w = Unfinished w"
| "DashProxy_handle_mpd (Suc n) srv mpd p w =
     (let periods = findall mpd (ns_mpd ''Period'');
          w1 = emit (FoundPeriods (length periods)) (emit (MpdPeriods periods) w)
      in case getitem periods 0 of
           Inl e \<Rightarrow> Raise e w1
         | Inr period \<Rightarrow>
             (case ensure_loop srv (representations_of period) mpd p w1 of
                Raise e w2 \<Rightarrow> Raise e w2
              | Unfinished w2 \<Rightarrow> Unfinished w2
              | Ok (mpd', p') w2 \<Rightarrow>
                  if py_bool (attrib_get mpd' ''minimumUpdatePeriod'' (PStr []))
                  then refresh_mpd n srv 10 p' (write_output_mpd p' mpd w2)
                  else Ok p' (emit VodStopping (write_output_mpd p' mpd w2))))"

definition run :: "nat \<Rightarrow> server \<Rightarrow> DashProxy \<Rightarrow> world \<Rightarrow> DashProxy outcome" where
  "run n srv p w = refresh_mpd n srv 0 p (emit (Running (mpd_url p) (output_dir p)) w)"

text \<open>\<open>DashProxy.__init__\<close> and the world before the run.\<close>

definition DashProxy_init ::
  "string \<Rightarrow> string \<Rightarrow> bool \<Rightarrow> (string \<times> string) list \<Rightarrow> (string \<times> string) list \<Rightarrow> bool \<Rightarrow>
   DashProxy" where
  "DashProxy_init url out dl hs cs save =
     \<lparr>mpd_url = url, output_dir = out, download = dl, save_mpds = save, headers = hs,
      cookies = cs, i_refresh = 0, downloaders = [], allocated = 0\<rparr>"

definition world0 :: world where
  "world0 = \<lparr>requests = [], files = [], logged = [], sleeps = []\<rparr>"

section \<open>What a run leaves\<close>

text \<open>
  \<open>address_of\<close> is the triple of positions an address holds, \<open>sessions\<close> lists the
  triples of the keys of the session map, in the order of insertion, and \<open>observed\<close> is
  what a run leaves to look at: the sessions it returns with, and the URLs it requested.
\<close>

definition address_of :: "RepAddr \<Rightarrow> int \<times> int \<times> int" where
  "address_of a = (period_idx a, adaptation_set_idx a, representation_idx a)"

definition sessions :: "DashProxy \<Rightarrow> (int \<times> int \<times> int) list" where
  "sessions p = map (address_of \<circ> fst) (downloaders p)"

definition observed :: "DashProxy outcome \<Rightarrow> (int \<times> int \<times> int) list option \<times> string list" where
  "observed r = (map_option sessions (returned r), map fst (requests (world_of r)))"

section \<open>Example manifests\<close>

text \<open>
  An \<open>S\<close> element as the parser delivers it (every attribute a string), the compact
  timeline \<open>[{d:4,r:2},{d:5,t:20}]\<close>, and a manifest with one period, one adaptation set
  and one representation \<open>v1\<close> that owns a \<open>SegmentTemplate\<close> with this timeline.
\<close>

definition S_entry :: "(string \<times> string) list \<Rightarrow> element" where
  "S_entry kvs = Element (ns_mpd ''S'') (map (\<lambda>(k, v). (k, PStr v)) kvs) None []"

definition example_timeline :: element where
  "example_timeline =
     Element (ns_mpd ''SegmentTimeline'') [] None
       [S_entry [(''d'', ''4''), (''r'', ''2'')], S_entry [(''d'', ''5''), (''t'', ''20'')]]"

definition template_with :: "string \<Rightarrow> element \<Rightarrow> element" where
  "template_with media timeline =
     Element (ns_mpd ''SegmentTemplate'')
       [(''initialization'', PStr ''init-$RepresentationID$.mp4''), (''media'', PStr media)]
       None [timeline]"

definition representation_with :: "string \<Rightarrow> element \<Rightarrow> element" where
  "representation_with media timeline =
     Element (ns_mpd ''Representation'') [(''id'', PStr ''v1'')] None
       [template_with media timeline]"

definition manifest_with :: "(string \<times> pyval) list \<Rightarrow> string \<Rightarrow> element \<Rightarrow> element" where
  "manifest_with attrs media timeline =
     Element (ns_mpd ''MPD'') attrs None
       [Element (ns_mpd ''Period'') [] None
          [Element (ns_mpd ''AdaptationSet'') [] None [representation_with media timeline]]]"

definition example_template :: "string \<Rightarrow> element" where
  "example_template media = template_with media example_timeline"

definition example_representation :: "string \<Rightarrow> element" where
  "example_representation media = representation_with media example_timeline"

definition example_manifest :: "(string \<times> pyval) list \<Rightarrow> string \<Rightarrow> element" where
  "example_manifest attrs media = manifest_with attrs media example_timeline"



definition example_proxy :: DashProxy where
  "example_proxy = DashProxy_init ''http://h/a/b/manifest.mpd'' ''out'' True [] [] False"

text \<open>
  The server of the examples answers the manifest URL with the example manifest and every
  other URL with some bytes, always with status 200.
\<close>

definition example_server :: "string \<Rightarrow> server" where
  "example_server media n url =
     (if url = ''http://h/a/b/manifest.mpd''
      then \<lparr>status_code = 200, content = Doc (example_manifest [] media)\<rparr>
      else \<lparr>status_code = 200, content = Bytes ''data''\<rparr>)"

definition address0 :: RepAddr where
  "address0 = \<lparr>oid = 0, period_idx = 0, adaptation_set_idx = 0, representation_idx = 0\<rparr>"

text \<open>
  A manifest whose adaptation set owns a \<open>SegmentTemplate\<close> and has two representations:
  the first owns a template of its own, the second owns none.
\<close>

definition two_level_manifest :: element where
  "two_level_manifest =
     Element (ns_mpd ''MPD'') [] None
       [Element (ns_mpd ''Period'') [] None
          [Element (ns_mpd ''AdaptationSet'') [] None
             [Element (ns_mpd ''SegmentTemplate'') [(''media'', PStr ''as-$Time$.m4s'')] None [],
              example_representation ''rep-$Time$.m4s'',
              Element (ns_mpd ''Representation'') [(''id'', PStr ''v2'')] None []]]]"

text \<open>
  Manifests with a top-level node of the given name that holds an absolute URL (the
  manifest format names it \<open>BaseURL\<close>), and with a top-level \<open>Location\<close>.
\<close>

definition base_url_manifest :: "string \<Rightarrow> element" where
  "base_url_manifest name =
     Element (ns_mpd ''MPD'') [] None
       [Element (ns_mpd name) [] (Some ''http://cdn/v/'') [],
        Element (ns_mpd ''Period'') [] None []]"

definition location_manifest :: element where
  "location_manifest =
     Element (ns_mpd ''MPD'') [] None
       [Element (ns_mpd ''Location'') [] (Some ''http://h/x/alt.mpd'') [],
        Element (ns_mpd ''Period'') [] None []]"

text \<open>
  A server that answers every request with status 404, a manifest whose representation
  is a single file named by its \<open>BaseURL\<close>, and a downloader for the address
  \<open>(0, 0, 0)\<close> with the base URL of the example manifest.
\<close>

definition failing_server :: server where
  "failing_server n url = \<lparr>status_code = 404, content = Bytes ''not found''\<rparr>"

definition single_file_manifest :: element where
  "single_file_manifest =
     Element (ns_mpd ''MPD'') [] None
       [Element (ns_mpd ''Period'') [] None
          [Element (ns_mpd ''AdaptationSet'') [] None
             [Element (ns_mpd ''Representation'') [(''id'', PStr ''v1'')] None
                [Element (ns_mpd ''BaseURL'') [] (Some ''movie.mp4'') []]]]]"

definition example_downloader :: DashDownloader where
  "example_downloader = (new_downloader address0)\<lparr>mpd_base_url := ''http://h/a/b/''\<rparr>"

text \<open>
  A server whose first answer to the manifest URL is a failure (status 503) with a body
  that is itself a manifest, and whose later answers are a success with another manifest.
  Neither manifest declares \<open>minimumUpdatePeriod\<close>.
\<close>

definition flaky_server :: server where
  "flaky_server n url =
     (if url = ''http://h/a/b/manifest.mpd''
      then (if n = 0 then \<lparr>status_code = 503, content = Doc single_file_manifest\<rparr>
            else \<lparr>status_code = 200, content = Doc (base_url_manifest ''BaseURL'')\<rparr>)
      else \<lparr>status_code = 200, content = Bytes ''data''\<rparr>)"

text \<open>
  A server whose first manifest is live (it declares \<open>minimumUpdatePeriod\<close>) and whose
  later manifests are not; the representation has an initialization segment and an empty
  timeline.
\<close>

definition empty_timeline :: element where
  "empty_timeline = Element (ns_mpd ''SegmentTimeline'') [] None []"

definition live_then_vod_server :: server where
  "live_then_vod_server n url =
     (if url = ''http://h/a/b/manifest.mpd''
      then (if n = 0
            then \<lparr>status_code = 200,
                  content = Doc (manifest_with [(''minimumUpdatePeriod'', PStr ''PT10S'')]
                                   ''seg.m4s'' empty_timeline)\<rparr>
            else \<lparr>status_code = 200,
                  content = Doc (manifest_with [] ''seg.m4s'' empty_timeline)\<rparr>)
      else \<lparr>status_code = 200, content = Bytes ''data''\<rparr>)"


definition start_timeline :: element where
  "start_timeline =
     Element (ns_mpd ''SegmentTimeline'') [] None [S_entry [(''d'', ''5''), (''t'', ''20'')]]"

text \<open>
  A server whose first answer to the manifest URL is a failure (status 503) with a body
  that is a manifest, and whose later answers are a success with a body that is not XML.
\<close>

definition unparsable_server :: server where
  "unparsable_server n url =
     (if url = ''http://h/a/b/manifest.mpd'' \<and> n = 0
      then \<lparr>status_code = 503, content = Doc single_file_manifest\<rparr>
      else \<lparr>status_code = 200, content = Bytes ''<html>''\<rparr>)"

section \<open>The expansion of a timeline\<close>

text \<open>
  What the two loops compute, as functions of the durations: \<open>runs ds rs\<close> repeats each
  duration \<open>repeat + 1\<close> times, \<open>numbered idx ds\<close> are the elements the first loop creates
  for these durations from position \<open>idx\<close> on.
\<close>

definition runs :: "int list \<Rightarrow> int list \<Rightarrow> int list" where
  "runs ds rs = concat (map (\<lambda>(d, r). replicate (nat (r + 1)) d) (zip ds rs))"

fun numbered :: "nat \<Rightarrow> int list \<Rightarrow> element list" where
  "numbered idx [] = []"
| "numbered idx (d # ds) = new_elem d idx # numbered (Suc idx) ds"

text \<open>
  \<open>timed idx t ds\<close> are these elements as the second loop leaves them, the clock
  starting at \<open>t\<close>.
\<close>

fun timed :: "nat \<Rightarrow> int \<Rightarrow> int list \<Rightarrow> element list" where
  "timed idx t [] = []"
| "timed idx t (d # ds) = attrib_set (new_elem d idx) ''t'' (PInt t) # timed (Suc idx) (t + d) ds"

text \<open>
  The descriptor of a segment is what \<open>render_template\<close> reads of it: the sequence
  number \<open>i\<close> and the start time \<open>t\<close>.
\<close>

definition descriptors :: "element \<Rightarrow> (pyval \<times> pyval) list" where
  "descriptors timeline =
     map (\<lambda>segment. (attrib_get segment ''i'' (PStr []), attrib_get segment ''t'' (PStr [])))
       (findall timeline (ns_mpd ''S''))"


lemma numbered_append:
  "numbered idx (xs @ ys) = numbered idx xs @ numbered (idx + length xs) ys"
  by (induction xs arbitrary: idx) simp_all

lemma length_numbered [simp]: "length (numbered idx ds) = length ds"
  by (induction ds arbitrary: idx) simp_all

lemma runs_Cons: "runs (d # ds) (r # rs) = replicate (nat (r + 1)) d @ runs ds rs"
  by (simp add: runs_def)

lemma insert_elems_append:
  "length pre = idx \<Longrightarrow>
   insert_elems n d idx (pre @ others) = pre @ numbered idx (replicate n d) @ others"
proof (induction n arbitrary: idx pre)
  case 0
  then show ?case by simp
next
  case (Suc n)
  have "list_insert idx (new_elem d idx) (pre @ others) = (pre @ [new_elem d idx]) @ others"
    using Suc.prems by (simp add: list_insert_def)
  moreover have "length (pre @ [new_elem d idx]) = idx + 1"
    using Suc.prems by simp
  ultimately show ?case
    using Suc.IH [of "pre @ [new_elem d idx]" "idx + 1"] by simp
qed

lemma expand_loop_ok:
  "map duration_of segs = map Inr ds \<Longrightarrow> map repeat_of segs = map Inr rs \<Longrightarrow>
   length pre = idx \<Longrightarrow>
   expand_loop segs idx (pre @ others) w =
     Ok (pre @ numbered idx (runs ds rs) @ others)
        (w\<lparr>logged := logged w @ replicate (length (runs ds rs)) AppendingElem\<rparr>)"
proof (induction segs arbitrary: ds rs idx pre w)
  case Nil
  then show ?case by (simp add: runs_def)
next
  case (Cons seg segs)
  from Cons.prems obtain d ds' where ds: "ds = d # ds'" "duration_of seg = Inr d"
    "map duration_of segs = map Inr ds'" by (cases ds) auto
  from Cons.prems obtain r rs' where rs: "rs = r # rs'" "repeat_of seg = Inr r"
    "map repeat_of segs = map Inr rs'" by (cases rs) auto
  let ?n = "nat (r + 1)"
  let ?pre = "pre @ numbered idx (replicate ?n d)"
  have len: "length ?pre = idx + ?n" using Cons.prems by simp
  have ins: "insert_elems ?n d idx (pre @ others) = ?pre @ others"
    using insert_elems_append [OF Cons.prems(3)] by simp
  let ?w = "w\<lparr>logged := logged w @ replicate ?n AppendingElem\<rparr>"
  have "expand_loop (seg # segs) idx (pre @ others) w =
      expand_loop segs (idx + ?n) (?pre @ others) ?w"
    by (simp add: ds rs ins)
  also have "\<dots> = Ok (?pre @ numbered (idx + ?n) (runs ds' rs') @ others)
      (?w\<lparr>logged := logged ?w @ replicate (length (runs ds' rs')) AppendingElem\<rparr>)"
    using Cons.IH [OF ds(3) rs(3) len] by simp
  also have "\<dots> = Ok (pre @ numbered idx (runs ds rs) @ others)
      (w\<lparr>logged := logged w @ replicate (length (runs ds rs)) AppendingElem\<rparr>)"
    by (simp add: ds rs runs_Cons numbered_append replicate_add)
  finally show ?case .
qed

lemma length_runs:
  "length ds = length rs \<Longrightarrow> \<forall>r \<in> set rs. 0 \<le> r \<Longrightarrow>
   int (length (runs ds rs)) = (\<Sum>r\<leftarrow>rs. r + 1)"
proof (induction ds rs rule: list_induct2)
  case Nil
  then show ?case by (simp add: runs_def)
next
  case (Cons d ds r rs)
  then show ?case by (simp add: runs_Cons)
qed

lemma numbered_i:
  "map (\<lambda>e. attrib_get e ''i'' dflt) (numbered idx ds) =
   map (\<lambda>k. PInt (int k + 1)) [idx..<idx + length ds]"
proof (induction ds arbitrary: idx)
  case Nil
  then show ?case by simp
next
  case (Cons d ds)
  have "[idx..<idx + length (d # ds)] = idx # [Suc idx..<Suc idx + length ds]"
    by (simp add: upt_rec)
  then show ?case using Cons.IH [of "Suc idx"] by (simp add: new_elem_def attrib_get_def)
qed

lemma tag_numbered: "e \<in> set (numbered idx ds) \<Longrightarrow> tag e = ns_mpd ''S''"
  by (induction ds arbitrary: idx) (auto simp: new_elem_def)

lemma filter_numbered [simp]:
  "filter (\<lambda>c. tag c = ns_mpd ''S'') (numbered idx ds) = numbered idx ds"
  by (rule filter_True) (simp add: tag_numbered)

lemma filter_not_numbered [simp]:
  "filter (\<lambda>c. tag c \<noteq> ns_mpd ''S'') (numbered idx ds) = []"
  by (simp add: filter_empty_conv tag_numbered)

lemma expand_timeline_ok:
  assumes "map duration_of (findall timeline (ns_mpd ''S'')) = map Inr ds"
    and "map repeat_of (findall timeline (ns_mpd ''S'')) = map Inr rs"
  shows "expand_timeline timeline w =
      Ok (set_children timeline
            (numbered 0 (runs ds rs) @
             filter (\<lambda>c. tag c \<noteq> ns_mpd ''S'') (children timeline)))
         (w\<lparr>logged := logged w @ replicate (length (runs ds rs)) AppendingElem\<rparr>)"
  using expand_loop_ok [OF assms, of "[]" 0 _ w]
  by (simp add: expand_timeline_def then_do_def)

text \<open>
  Claim C4. Let the \<open>S\<close> entries of a timeline have the durations \<open>ds\<close> and the repeat
  counts \<open>rs\<close> (the values of \<open>int(segment.attrib.get("d", "0"))\<close> and
  \<open>int(segment.attrib.get("r", "0"))\<close>), no repeat count negative. Then the expansion
  returns, the rewritten timeline has as many \<open>S\<close> elements as the sum of \<open>repeat + 1\<close>
  over the entries, and their sequence numbers (attribute \<open>i\<close>) are 1, 2, ..., in this
  order, up to that number.
\<close>

theorem expansion_length_and_numbering:
  assumes "map duration_of (findall timeline (ns_mpd ''S'')) = map Inr ds"
    and "map repeat_of (findall timeline (ns_mpd ''S'')) = map Inr rs"
    and "\<forall>r \<in> set rs. 0 \<le> r"
  shows "\<exists>expanded w'. expand_timeline timeline w = Ok expanded w' \<and>
           int (length (findall expanded (ns_mpd ''S''))) = (\<Sum>r\<leftarrow>rs. r + 1) \<and>
           map (\<lambda>e. attrib_get e ''i'' (PStr [])) (findall expanded (ns_mpd ''S'')) =
             map (\<lambda>k. PInt (int k)) [1..<Suc (length (findall expanded (ns_mpd ''S'')))]"
proof -
  let ?S = "ns_mpd ''S''"
  let ?others = "filter (\<lambda>c. tag c \<noteq> ?S) (children timeline)"
  let ?new = "numbered 0 (runs ds rs)"
  let ?expanded = "set_children timeline (?new @ ?others)"
  have len: "length ds = length rs"
    using assms(1,2) by (metis length_map)
  have found: "findall ?expanded ?S = ?new"
    by (simp add: findall_def set_children_def)
  have "int (length ?new) = (\<Sum>r\<leftarrow>rs. r + 1)"
    using length_runs [OF len assms(3)] by simp
  moreover have "map (\<lambda>e. attrib_get e ''i'' (PStr [])) ?new =
      map (\<lambda>k. PInt (int k)) [1..<Suc (length ?new)]"
    using numbered_i [of "PStr []" 0 "runs ds rs"]
    by (simp add: map_Suc_upt [symmetric] del: upt_Suc)
  ultimately show ?thesis
    using expand_timeline_ok [OF assms(1,2), of w] found by simp
qed

theorem expansion_length_and_numbering_witness:
  "map duration_of (findall example_timeline (ns_mpd ''S'')) = map Inr [4, 5] \<and>
   map repeat_of (findall example_timeline (ns_mpd ''S'')) = map Inr [2, 0] \<and>
   (0 :: int) \<le> 2 \<and> (0 :: int) \<le> 0 \<and>
   (\<exists>expanded w'. expand_timeline example_timeline world0 = Ok expanded w' \<and>
      int (length (findall expanded (ns_mpd ''S''))) = 4 \<and>
      map (\<lambda>e. attrib_get e ''i'' (PStr [])) (findall expanded (ns_mpd ''S'')) =
        map (\<lambda>k. PInt (int k)) [1..<Suc (length (findall expanded (ns_mpd ''S'')))])"
proof -
  have h1: "map duration_of (findall example_timeline (ns_mpd ''S'')) = map Inr [4, 5]"
    by code_simp
  have h2: "map repeat_of (findall example_timeline (ns_mpd ''S'')) = map Inr [2, 0]"
    by code_simp
  have h3: "\<forall>r \<in> set [2, 0 :: int]. 0 \<le> r"
    by simp
  show ?thesis
    using h1 h2 h3 expansion_length_and_numbering [OF h1 h2 h3, of world0] by simp
qed

section \<open>Downloads\<close>

lemma py_int_minus_one: "py_int (PStr ''-1'') = Inr (- 1)"
  by code_simp

lemma py_int_zero: "py_int (PStr ''0'') = Inr 0"
  by code_simp

lemma current_time_of_new_elem [simp]: "current_time_of (new_elem d idx) = Inr (- 1)"
  by (simp add: current_time_of_def new_elem_def attrib_get_def py_int_minus_one)

lemma duration_of_timed_elem [simp]:
  "duration_of (attrib_set (new_elem d idx) ''t'' (PInt t)) = Inr d"
  by (simp add: duration_of_def new_elem_def attrib_set_def attrib_get_def py_int_def)

lemma download_template_rendered:
  assumes "render_template template ra sa = Inr dest"
  shows "download_template srv p d template hs cs ra sa w =
     (let r = srv (length (requests w)) (full_url d dest);
          w' = w\<lparr>logged := logged w @ [Requesting dest (full_url d dest)],
                 requests := requests w @ [(full_url d dest, hs, cs)]\<rparr>
      in if success r then Ok () (write_dest p dest (content r) w')
         else Ok () (emit (CannotDownload (full_url d dest) (status_code r)) w'))"
  using assms by (simp add: download_template_def requests_get_def emit_def Let_def)

lemma download_template_failure:
  assumes "render_template template ra sa = Inr dest"
    and "\<not> success (srv (length (requests w)) (full_url d dest))"
  shows "download_template srv p d template hs cs ra sa w =
     Ok () (w\<lparr>logged := logged w @
                 [Requesting dest (full_url d dest),
                  CannotDownload (full_url d dest)
                    (status_code (srv (length (requests w)) (full_url d dest)))],
               requests := requests w @ [(full_url d dest, hs, cs)]\<rparr>)"
  using assms by (simp add: download_template_rendered emit_def Let_def)

lemma download_template_Ok:
  assumes "render_template template ra sa = Inr dest"
  shows "\<exists>w'. download_template srv p d template hs cs ra sa w = Ok () w' \<and>
           requests w' = requests w @ [(full_url d dest, hs, cs)] \<and>
           sleeps w' = sleeps w \<and>
           (\<not> success (srv (length (requests w)) (full_url d dest)) \<longrightarrow> files w' = files w)"
  using assms
  by (simp add: download_template_rendered emit_def write_dest_def write_file_def Let_def)

lemma media_loop_numbered:
  assumes "render_template media_template None None = Inr dest"
  shows "\<exists>w'. media_loop srv p d media_template rep (numbered idx ds) t w = Ok (timed idx t ds) w' \<and>
           map fst (requests w') = map fst (requests w) @ replicate (length ds) (full_url d dest) \<and>
           ((\<forall>n url. \<not> success (srv n url)) \<longrightarrow> files w' = files w)"
proof (induction ds arbitrary: idx t w)
  case Nil
  then show ?case by simp
next
  case (Cons a ds)
  let ?seg = "attrib_set (new_elem a idx) ''t'' (PInt t)"
  obtain w1 where w1: "download_template srv p d media_template (Node rep) (Node ?seg) None None w = Ok () w1"
    "requests w1 = requests w @ [(full_url d dest, Node rep, Node ?seg)]"
    "\<not> success (srv (length (requests w)) (full_url d dest)) \<longrightarrow> files w1 = files w"
    using download_template_Ok [OF assms] by blast
  obtain w2 where w2: "media_loop srv p d media_template rep (numbered (Suc idx) ds) (t + a) w1 = Ok (timed (Suc idx) (t + a) ds) w2"
    "map fst (requests w2) = map fst (requests w1) @ replicate (length ds) (full_url d dest)"
    "(\<forall>n url. \<not> success (srv n url)) \<longrightarrow> files w2 = files w1"
    using Cons.IH by blast
  have "media_loop srv p d media_template rep (numbered idx (a # ds)) t w = Ok (timed idx t (a # ds)) w2"
    by (simp add: w1 w2)
  moreover have "map fst (requests w2) = map fst (requests w) @ replicate (length (a # ds)) (full_url d dest)"
    by (simp add: w1 w2 replicate_append_same)
  moreover have "(\<forall>n url. \<not> success (srv n url)) \<longrightarrow> files w2 = files w"
    using w1(3) w2(3) by simp
  ultimately show ?case by blast
qed

lemma download_single_failure:
  assumes "base_url mpd (rep_addr d) = Inr (Some node)" and "etext node = Some dest"
    and "\<not> success (srv (length (requests w)) (full_url d dest))"
  shows "download_single srv p d mpd hs cs w =
     Ok () (w\<lparr>logged := logged w @
                 [SingleRequesting dest (full_url d dest),
                  CannotDownload (full_url d dest)
                    (status_code (srv (length (requests w)) (full_url d dest)))],
               requests := requests w @ [(full_url d dest, hs, cs)]\<rparr>)"
  using assms by (simp add: download_single_def requests_get_def emit_def Let_def)

section \<open>Expanding an expanded timeline\<close>


lemma duration_of_new_elem [simp]: "duration_of (new_elem d idx) = Inr d"
  by (simp add: duration_of_def new_elem_def attrib_get_def py_int_def)

lemma repeat_of_new_elem [simp]: "repeat_of (new_elem d idx) = Inr 0"
  by (simp add: repeat_of_def new_elem_def attrib_get_def py_int_zero)

lemma repeat_of_timed_elem [simp]:
  "repeat_of (attrib_set (new_elem d idx) ''t'' v) = Inr 0"
  by (simp add: repeat_of_def new_elem_def attrib_set_def attrib_get_def py_int_zero)

lemma duration_of_started_elem [simp]:
  "duration_of (attrib_set (new_elem d idx) ''t'' v) = Inr d"
  by (simp add: duration_of_def new_elem_def attrib_set_def attrib_get_def py_int_def)

lemma tag_started_elem [simp]: "tag (attrib_set (new_elem d idx) ''t'' v) = ns_mpd ''S''"
  by (simp add: attrib_set_def new_elem_def)

lemma tag_new_elem [simp]: "tag (new_elem d idx) = ns_mpd ''S''"
  by (simp add: new_elem_def)







section \<open>The locator, the base URL and the renderer\<close>

text \<open>
  Claim C7. For an address that resolves to the representation \<open>rep\<close> in the adaptation
  set \<open>aset\<close>, \<open>segment_template\<close> returns the first \<open>SegmentTemplate\<close> child of the
  representation when it has one, whatever the adaptation set owns; otherwise the first
  \<open>SegmentTemplate\<close> child of the adaptation set; and \<open>None\<close> when neither has one.
\<close>

theorem segment_template_resolution:
  assumes "representation mpd a = Inr rep" and "adaptation_set mpd a = Inr aset"
  shows "(\<forall>st. find_first rep (ns_mpd ''SegmentTemplate'') = Some st \<longrightarrow>
            segment_template mpd a = Inr (Some st)) \<and>
         (\<forall>st. find_first rep (ns_mpd ''SegmentTemplate'') = None \<and>
               find_first aset (ns_mpd ''SegmentTemplate'') = Some st \<longrightarrow>
            segment_template mpd a = Inr (Some st)) \<and>
         (find_first rep (ns_mpd ''SegmentTemplate'') = None \<and>
          find_first aset (ns_mpd ''SegmentTemplate'') = None \<longrightarrow>
            segment_template mpd a = Inr None)"
  using assms by (simp add: segment_template_def)

theorem segment_template_resolution_witness:
  "representation two_level_manifest address0 = Inr (example_representation ''rep-$Time$.m4s'') \<and>
   find_first (example_representation ''rep-$Time$.m4s'') (ns_mpd ''SegmentTemplate'') =
     Some (example_template ''rep-$Time$.m4s'') \<and>
   (\<exists>aset st. adaptation_set two_level_manifest address0 = Inr aset \<and>
      find_first aset (ns_mpd ''SegmentTemplate'') = Some st \<and>
      st \<noteq> example_template ''rep-$Time$.m4s'') \<and>
   segment_template two_level_manifest address0 =
     Inr (Some (example_template ''rep-$Time$.m4s''))"
proof -
  let ?rep = "example_representation ''rep-$Time$.m4s''"
  let ?as_st = "Element (ns_mpd ''SegmentTemplate'') [(''media'', PStr ''as-$Time$.m4s'')] None []"
  let ?aset = "Element (ns_mpd ''AdaptationSet'') [] None
      [?as_st, ?rep, Element (ns_mpd ''Representation'') [(''id'', PStr ''v2'')] None []]"
  have h1: "representation two_level_manifest address0 = Inr ?rep"
    by code_simp
  have h2: "adaptation_set two_level_manifest address0 = Inr ?aset"
    by code_simp
  have h3: "find_first ?rep (ns_mpd ''SegmentTemplate'') =
      Some (example_template ''rep-$Time$.m4s'')"
    by code_simp
  have h4: "find_first ?aset (ns_mpd ''SegmentTemplate'') = Some ?as_st"
    by code_simp
  have h5: "?as_st \<noteq> example_template ''rep-$Time$.m4s''"
    by code_simp
  from segment_template_resolution [OF h1 h2] h3
  have "segment_template two_level_manifest address0 =
      Inr (Some (example_template ''rep-$Time$.m4s''))"
    by blast
  with h1 h2 h3 h4 h5 show ?thesis by blast
qed

text \<open>
  Claim C8. With neither node the base is the directory of the manifest URL, and a
  \<open>Location\<close> node replaces it by the directory of its URL. A \<open>BaseURL\<close> node changes
  nothing: \<open>get_base_url\<close> looks for a child named \<open>BaseUrl\<close>, and a child with that very
  name is ignored as well because the test \<open>if baseUrlNode:\<close> is false for an element
  without children. The manifest URL is \<open>http://h/a/b/manifest.mpd\<close> and the node holds
  \<open>http://cdn/v/\<close>.
\<close>

theorem get_base_url_ignores_BaseURL:
  "get_base_url example_proxy (example_manifest [] []) = Inr ''http://h/a/b/'' \<and>
   get_base_url example_proxy location_manifest = Inr ''http://h/x/'' \<and>
   get_base_url example_proxy (base_url_manifest ''BaseURL'') = Inr ''http://h/a/b/'' \<and>
   get_base_url example_proxy (base_url_manifest ''BaseUrl'') = Inr ''http://h/a/b/''"
  by code_simp

text \<open>
  Claim C6. The marker \<open>$Number%05d$\<close> is replaced by the field \<open>{number}\<close>, which
  \<open>str.format\<close> fills with the plain decimal of the sequence number: for the third
  element of a timeline (\<open>i = 3\<close>) the marker renders as \<open>3\<close>, not as \<open>00003\<close>.
\<close>

theorem render_number_unpadded:
  "render_template (PStr ''$Number%05d$'') None
     (Some (attrib_set (new_elem 4 2) ''t'' (PInt 8))) = Inr ''3'' \<and>
   render_template (PStr ''seg-$Number%05d$.m4s'') (Some (example_representation []))
     (Some (attrib_set (new_elem 4 2) ''t'' (PInt 8))) = Inr ''seg-3.m4s''"
  by code_simp

section \<open>Runs\<close>

text \<open>
  Claim C1. The example manifest with the media template \<open>seg-$Number%05d$-$Time$.m4s\<close>:
  the run fetches the manifest and the initialization segment, and at the first segment
  of the timeline \<open>render_template\<close> is called with neither the representation nor the
  segment, so that \<open>str.format\<close> raises \<open>KeyError\<close> for the field \<open>number\<close>. No media
  segment is requested.
\<close>

theorem media_template_rendered_without_arguments:
  "(case run 2 (example_server ''seg-$Number%05d$-$Time$.m4s'') example_proxy world0 of
      Raise e w \<Rightarrow> e = KeyError ''number'' \<and>
        map fst (requests w) = [''http://h/a/b/manifest.mpd'', ''http://h/a/b/init-v1.mp4'']
    | _ \<Rightarrow> False)"
  by code_simp

text \<open>
  Claim C9. A download whose response has a status outside 200..299 returns normally: the
  request was issued once, the error is logged and no file is written, for a rendered
  template (\<open>download_template\<close>, which serves the initialization segment and the media
  segments) and for a single file (\<open>download_single\<close>) alike. The loop over the
  segments goes on to the next segment whatever the responses are: when the media template
  renders, it returns normally after one request per segment, and when every response is
  a failure no file has been written.
\<close>

theorem segment_fetch_failure_not_fatal:
  "(render_template template ra sa = Inr dest \<longrightarrow>
    \<not> success (srv (length (requests w)) (full_url d dest)) \<longrightarrow>
      download_template srv p d template hs cs ra sa w =
        Ok () (w\<lparr>logged := logged w @
                   [Requesting dest (full_url d dest),
                    CannotDownload (full_url d dest)
                      (status_code (srv (length (requests w)) (full_url d dest)))],
                  requests := requests w @ [(full_url d dest, hs, cs)]\<rparr>)) \<and>
   (base_url mpd (rep_addr d) = Inr (Some node) \<longrightarrow> etext node = Some dest \<longrightarrow>
    \<not> success (srv (length (requests w)) (full_url d dest)) \<longrightarrow>
      download_single srv p d mpd hs cs w =
        Ok () (w\<lparr>logged := logged w @
                   [SingleRequesting dest (full_url d dest),
                    CannotDownload (full_url d dest)
                      (status_code (srv (length (requests w)) (full_url d dest)))],
                  requests := requests w @ [(full_url d dest, hs, cs)]\<rparr>)) \<and>
   (render_template media_template None None = Inr dest \<longrightarrow>
      (\<exists>w'. media_loop srv p d media_template rep (numbered idx ds) t w =
              Ok (timed idx t ds) w' \<and>
            map fst (requests w') =
              map fst (requests w) @ replicate (length ds) (full_url d dest) \<and>
            ((\<forall>n url. \<not> success (srv n url)) \<longrightarrow> files w' = files w)))"
proof (intro conjI impI)
  assume "render_template template ra sa = Inr dest"
    and "\<not> success (srv (length (requests w)) (full_url d dest))"
  then show "download_template srv p d template hs cs ra sa w =
        Ok () (w\<lparr>logged := logged w @
                   [Requesting dest (full_url d dest),
                    CannotDownload (full_url d dest)
                      (status_code (srv (length (requests w)) (full_url d dest)))],
                  requests := requests w @ [(full_url d dest, hs, cs)]\<rparr>)"
    by (rule download_template_failure)
next
  assume "base_url mpd (rep_addr d) = Inr (Some node)" and "etext node = Some dest"
    and "\<not> success (srv (length (requests w)) (full_url d dest))"
  then show "download_single srv p d mpd hs cs w =
        Ok () (w\<lparr>logged := logged w @
                   [SingleRequesting dest (full_url d dest),
                    CannotDownload (full_url d dest)
                      (status_code (srv (length (requests w)) (full_url d dest)))],
                  requests := requests w @ [(full_url d dest, hs, cs)]\<rparr>)"
    by (rule download_single_failure)
next
  assume "render_template media_template None None = Inr dest"
  then show "\<exists>w'. media_loop srv p d media_template rep (numbered idx ds) t w =
              Ok (timed idx t ds) w' \<and>
            map fst (requests w') =
              map fst (requests w) @ replicate (length ds) (full_url d dest) \<and>
            ((\<forall>n url. \<not> success (srv n url)) \<longrightarrow> files w' = files w)"
    by (rule media_loop_numbered)
qed

theorem segment_fetch_failure_not_fatal_witness:
  "render_template (PStr ''seg.m4s'') None None = Inr ''seg.m4s'' \<and>
   \<not> success (failing_server (length (requests world0)) (full_url example_downloader ''seg.m4s'')) \<and>
   download_template failing_server example_proxy example_downloader (PStr ''seg.m4s'')
       (Dict []) (Dict []) None None world0 =
     Ok () \<lparr>requests = [(''http://h/a/b/seg.m4s'', Dict [], Dict [])], files = [],
             logged = [Requesting ''seg.m4s'' ''http://h/a/b/seg.m4s'',
                       CannotDownload ''http://h/a/b/seg.m4s'' 404],
             sleeps = []\<rparr> \<and>
   base_url single_file_manifest (rep_addr example_downloader) =
     Inr (Some (Element (ns_mpd ''BaseURL'') [] (Some ''movie.mp4'') [])) \<and>
   download_single failing_server example_proxy example_downloader single_file_manifest
       (Dict []) (Dict []) world0 =
     Ok () \<lparr>requests = [(''http://h/a/b/movie.mp4'', Dict [], Dict [])], files = [],
             logged = [SingleRequesting ''movie.mp4'' ''http://h/a/b/movie.mp4'',
                       CannotDownload ''http://h/a/b/movie.mp4'' 404],
             sleeps = []\<rparr> \<and>
   (\<exists>w'. media_loop failing_server example_proxy example_downloader (PStr ''seg.m4s'')
            (example_representation ''seg.m4s'') (numbered 0 [4, 4, 4, 5]) 0 world0 =
            Ok (timed 0 0 [4, 4, 4, 5]) w' \<and>
          map fst (requests w') = replicate 4 ''http://h/a/b/seg.m4s'' \<and>
          files w' = [])"
proof -
  let ?node = "Element (ns_mpd ''BaseURL'') [] (Some ''movie.mp4'') []"
  have h1: "render_template (PStr ''seg.m4s'') None None = Inr ''seg.m4s''"
    by code_simp
  have h2: "\<not> success (failing_server n url)" for n url
    by (simp add: success_def failing_server_def)
  have h3: "base_url single_file_manifest (rep_addr example_downloader) = Inr (Some ?node)"
    by code_simp
  have h4: "etext ?node = Some ''movie.mp4''"
    by simp
  have u: "full_url example_downloader x = ''http://h/a/b/'' @ x" for x
    by (simp add: full_url_def example_downloader_def)
  note inst1 = segment_fetch_failure_not_fatal [where template = "PStr ''seg.m4s''"
      and ra = None and sa = None and dest = "''seg.m4s''" and srv = failing_server
      and w = world0 and d = example_downloader and p = example_proxy
      and hs = "Dict []" and cs = "Dict []" and media_template = "PStr ''seg.m4s''"
      and rep = "example_representation ''seg.m4s''" and idx = 0 and ds = "[4, 4, 4, 5]"
      and t = 0]
  note inst2 = segment_fetch_failure_not_fatal [where dest = "''movie.mp4''"
      and srv = failing_server and w = world0 and d = example_downloader
      and p = example_proxy and hs = "Dict []" and cs = "Dict []"
      and mpd = single_file_manifest and node = ?node]
  have a: "download_template failing_server example_proxy example_downloader (PStr ''seg.m4s'')
       (Dict []) (Dict []) None None world0 =
     Ok () \<lparr>requests = [(''http://h/a/b/seg.m4s'', Dict [], Dict [])], files = [],
             logged = [Requesting ''seg.m4s'' ''http://h/a/b/seg.m4s'',
                       CannotDownload ''http://h/a/b/seg.m4s'' 404],
             sleeps = []\<rparr>"
    using inst1 [THEN conjunct1, rule_format, OF h1 h2]
    by (simp add: u world0_def failing_server_def)
  have b: "download_single failing_server example_proxy example_downloader single_file_manifest
       (Dict []) (Dict []) world0 =
     Ok () \<lparr>requests = [(''http://h/a/b/movie.mp4'', Dict [], Dict [])], files = [],
             logged = [SingleRequesting ''movie.mp4'' ''http://h/a/b/movie.mp4'',
                       CannotDownload ''http://h/a/b/movie.mp4'' 404],
             sleeps = []\<rparr>"
    using inst2 [THEN conjunct2, THEN conjunct1, rule_format, OF h3 h4 h2]
    by (simp add: u world0_def failing_server_def)
  have c: "\<exists>w'. media_loop failing_server example_proxy example_downloader (PStr ''seg.m4s'')
            (example_representation ''seg.m4s'') (numbered 0 [4, 4, 4, 5]) 0 world0 =
            Ok (timed 0 0 [4, 4, 4, 5]) w' \<and>
          map fst (requests w') = replicate 4 ''http://h/a/b/seg.m4s'' \<and>
          files w' = []"
  proof -
    from inst1 [THEN conjunct2, THEN conjunct2, rule_format, OF h1]
    obtain w' where m: "media_loop failing_server example_proxy example_downloader (PStr ''seg.m4s'')
            (example_representation ''seg.m4s'') (numbered 0 [4, 4, 4, 5]) 0 world0 =
            Ok (timed 0 0 [4, 4, 4, 5]) w'"
      and r: "map fst (requests w') = map fst (requests world0) @
            replicate (length [4, 4, 4, 5 :: int]) (full_url example_downloader ''seg.m4s'')"
      and f: "(\<forall>n url. \<not> success (failing_server n url)) \<longrightarrow> files w' = files world0"
      by blast
    have r': "map fst (requests w') = replicate 4 ''http://h/a/b/seg.m4s''"
      using r by (simp add: u world0_def numeral_eq_Suc)
    have f': "files w' = []"
      using f h2 by (simp add: world0_def)
    show ?thesis using m r' f' by blast
  qed
  show ?thesis using h1 h2 h3 a b c by blast
qed

text \<open>
  Claim C10, as the claim states it. The first fetch of the manifest fails with status 503
  and a body that is a manifest; the retry succeeds with status 200 and a body that is
  not XML. The nested \<open>refresh_mpd\<close> raises \<open>ParseError\<close> on the body of the success, the
  exception ends the run, and the body of the failed response is never handled: nothing
  is requested after the two fetches of the manifest and no file is written.
\<close>

theorem failed_body_lost_when_retry_raises:
  "status_code (unparsable_server 0 ''http://h/a/b/manifest.mpd'') = 503 \<and>
   content (unparsable_server 0 ''http://h/a/b/manifest.mpd'') = Doc single_file_manifest \<and>
   status_code (unparsable_server 1 ''http://h/a/b/manifest.mpd'') = 200 \<and>
   refresh_mpd 3 unparsable_server 0 example_proxy world0 =
     Raise ParseError
       \<lparr>requests = [(''http://h/a/b/manifest.mpd'', Dict [], Dict []),
                    (''http://h/a/b/manifest.mpd'', Dict [], Dict [])],
        files = [], logged = [CannotGetMpd 503 10], sleeps = [10]\<rparr>"
  by code_simp

text \<open>
  Claim C10, amended. Let the fetch of the manifest in \<open>refresh_mpd\<close> return the response
  \<open>r\<close> with a status outside 200..299, \<open>w_sent\<close> being the world once the request is
  issued. The invocation then is the delayed retry, the nested \<open>refresh_mpd\<close>, followed
  by the rest of the function: when the retry returns normally, the body of \<open>r\<close>, the
  failed response, is parsed (\<open>ParseError\<close> when it is not XML) and handed to
  \<open>handle_mpd\<close>, after everything the retry did; when the retry raises, or does not
  return, so does the invocation, and the failed body is not handled.
\<close>

theorem failed_fetch_falls_through:
  assumes "w_sent = (if 0 < after then w\<lparr>sleeps := sleeps w @ [after]\<rparr> else w)
                 \<lparr>requests := requests w @ [(mpd_url p, Dict (headers p), Dict (cookies p))]\<rparr>"
    and "r = srv (length (requests w)) (mpd_url p)"
    and "status_code r < 200 \<or> 300 \<le> status_code r"
  shows "refresh_mpd (Suc n) srv after p w =
           (case refresh_mpd n srv retry_interval (p\<lparr>i_refresh := i_refresh p + 1\<rparr>)
                   (emit (CannotGetMpd (status_code r) retry_interval) w_sent) of
              Ok p_retry w_retry \<Rightarrow>
                (case content r of
                   Bytes _ \<Rightarrow> Raise ParseError w_retry
                 | Doc failed_body \<Rightarrow>
                     DashProxy_handle_mpd n srv failed_body p_retry w_retry)
            | Raise e w_retry \<Rightarrow> Raise e w_retry
            | Unfinished w_retry \<Rightarrow> Unfinished w_retry)"
proof -
  have req: "requests_get srv (mpd_url p) (Dict (headers p)) (Dict (cookies p))
      (if 0 < after then w\<lparr>sleeps := sleeps w @ [after]\<rparr> else w) = (r, w_sent)"
    using assms(1,2) by (simp add: requests_get_def)
  show ?thesis
    using assms(3) by (auto simp: req Let_def split: outcome.splits)
qed

theorem failed_fetch_falls_through_witness:
  "status_code (flaky_server 0 ''http://h/a/b/manifest.mpd'') = 503 \<and>
   content (flaky_server 0 ''http://h/a/b/manifest.mpd'') = Doc single_file_manifest \<and>
   (\<exists>p2 w2.
      refresh_mpd 2 flaky_server retry_interval
        (example_proxy\<lparr>i_refresh := i_refresh example_proxy + 1\<rparr>)
        (emit (CannotGetMpd 503 retry_interval)
           (world0\<lparr>requests := [(''http://h/a/b/manifest.mpd'', Dict [], Dict [])]\<rparr>)) =
        Ok p2 w2 \<and>
      refresh_mpd 3 flaky_server 0 example_proxy world0 =
        DashProxy_handle_mpd 2 flaky_server single_file_manifest p2 w2) \<and>
   (case refresh_mpd 3 flaky_server 0 example_proxy world0 of
      Ok p w \<Rightarrow>
        map fst (requests w) =
          [''http://h/a/b/manifest.mpd'', ''http://h/a/b/manifest.mpd'',
           ''http://h/a/b/movie.mp4''] \<and>
        files w =
          [(''out/manifest.mpd'', Doc (base_url_manifest ''BaseURL'')),
           (''out/movie.mp4'', Bytes ''data''),
           (''out/manifest.mpd'', Doc single_file_manifest)]
    | _ \<Rightarrow> False)"
proof -
  let ?url = "''http://h/a/b/manifest.mpd''"
  let ?r = "flaky_server 0 ?url"
  let ?w1 = "world0\<lparr>requests := [(?url, Dict [], Dict [])]\<rparr>"
  let ?retry = "refresh_mpd 2 flaky_server retry_interval
      (example_proxy\<lparr>i_refresh := i_refresh example_proxy + 1\<rparr>)
      (emit (CannotGetMpd 503 retry_interval) ?w1)"
  have st: "status_code ?r = 503" and body: "content ?r = Doc single_file_manifest"
    by (simp_all add: flaky_server_def)
  have "case ?retry of Ok p2 w2 \<Rightarrow> True | _ \<Rightarrow> False"
    by code_simp
  then obtain p2 w2 where retry: "?retry = Ok p2 w2"
    by (cases ?retry) simp_all
  have url: "mpd_url example_proxy = ?url" "headers example_proxy = []"
    "cookies example_proxy = []"
    by (simp_all add: example_proxy_def DashProxy_init_def)
  have w1: "?w1 = (if 0 < (0::int) then world0\<lparr>sleeps := sleeps world0 @ [0]\<rparr> else world0)
      \<lparr>requests := requests world0 @
         [(mpd_url example_proxy, Dict (headers example_proxy), Dict (cookies example_proxy))]\<rparr>"
    by (simp add: url world0_def)
  have r: "?r = flaky_server (length (requests world0)) (mpd_url example_proxy)"
    by (simp add: url world0_def)
  have fails: "status_code ?r < 200 \<or> 300 \<le> status_code ?r"
    by (simp add: st)
  have "refresh_mpd (Suc 2) flaky_server 0 example_proxy world0 =
      DashProxy_handle_mpd 2 flaky_server single_file_manifest p2 w2"
    using failed_fetch_falls_through [where w_sent = ?w1 and after = 0 and w = world0
        and p = example_proxy and r = ?r and srv = flaky_server and n = 2, OF w1 r fails]
      retry
    by (simp add: st body)
  then have fall: "refresh_mpd 3 flaky_server 0 example_proxy world0 =
      DashProxy_handle_mpd 2 flaky_server single_file_manifest p2 w2"
    by (simp add: numeral_3_eq_3)
  have final: "case refresh_mpd 3 flaky_server 0 example_proxy world0 of
      Ok p w \<Rightarrow>
        map fst (requests w) = [?url, ?url, ''http://h/a/b/movie.mp4''] \<and>
        files w =
          [(''out/manifest.mpd'', Doc (base_url_manifest ''BaseURL'')),
           (''out/movie.mp4'', Bytes ''data''),
           (''out/manifest.mpd'', Doc single_file_manifest)]
    | _ \<Rightarrow> False"
    by code_simp
  show ?thesis using st body retry fall final by blast
qed

section \<open>Start times and the rewritten tree\<close>

text \<open>
  Claim C2. The timeline \<open>[{d:5,t:20}]\<close> yields the descriptor \<open>(1,0)\<close>, not \<open>(1,20)\<close>,
  and the timeline \<open>[{d:4,r:2},{d:5,t:20}]\<close> yields four descriptors of which the fourth
  starts at 12, where the third ends, not at 20: the first loop builds the new elements
  from \<open>d\<close> and the running index only, so the explicit start time never reaches the
  second loop, whose branch for it (line 303) is never taken. The media template of the
  runs has no marker, so that the second loop gets through.
\<close>

theorem explicit_start_time_dropped:
  "map_option descriptors
     (returned (expand_and_download (example_server ''seg.m4s'') example_proxy
                  example_downloader (PStr ''seg.m4s'')
                  (representation_with ''seg.m4s'' start_timeline) start_timeline world0)) =
     Some [(PInt 1, PInt 0)] \<and>
   map_option descriptors
     (returned (expand_and_download (example_server ''seg.m4s'') example_proxy
                  example_downloader (PStr ''seg.m4s'') (example_representation ''seg.m4s'')
                  example_timeline world0)) =
     Some [(PInt 1, PInt 0), (PInt 2, PInt 4), (PInt 3, PInt 8), (PInt 4, PInt 12)]"
  by code_simp




section \<open>Sessions across refresh cycles\<close>

text \<open>
  Claim C3. A live manifest followed by a manifest that is not live: the run handles two
  manifests with the same single representation. The second cycle does not reuse the
  session of the first: the address built for the representation is a new object, which
  the session map does not hold as a key, so the run ends with two sessions for the
  address \<open>(0, 0, 0)\<close> and the initialization segment is requested in both cycles.
\<close>

theorem session_not_reused:
  "observed (run 4 live_then_vod_server example_proxy world0) =
     (Some [(0, 0, 0), (0, 0, 0)],
      [''http://h/a/b/manifest.mpd'', ''http://h/a/b/init-v1.mp4'',
       ''http://h/a/b/manifest.mpd'', ''http://h/a/b/init-v1.mp4''])"
  by code_simp

end
